theory Spec2Isabelle
  imports Complex_Main
begin

section \<open>Materials and compositions\<close>

text \<open>
  The header \<^verbatim>\<open>enrichment_facility.h\<close> works on \<^verbatim>\<open>cyclus::Material\<close> objects: a
  mass (\<^verbatim>\<open>m->quantity()\<close>) and an isotopic composition. A nuclide is identified by its
  number (\<^verbatim>\<open>922350000\<close> for U-235, \<^verbatim>\<open>922380000\<close> for U-238). The C++ type
  \<^verbatim>\<open>double\<close> is idealised as \<^typ>\<open>real\<close>: rounding, infinities and NaN are outside
  the model.
\<close>

type_synonym Nuc = nat

definition U235 :: Nuc where
  "U235 = 922350000"

definition U238 :: Nuc where
  "U238 = 922380000"

record Material =
  quantity :: real
  mat_comp :: "Nuc \<Rightarrow> real"

text \<open>
  Modelled from the spec: the material-query helpers of the cyclus toolkit
  (\<^verbatim>\<open>MatQuery::mass_frac\<close>, \<^verbatim>\<open>MatQuery::multi_mass_frac\<close>) are library code that the
  header only calls. A composition maps a nuclide to its mass fraction (zero when the
  nuclide is absent); the fraction of a set of nuclides is the sum of their fractions.
\<close>

definition mass_frac :: "Material \<Rightarrow> Nuc \<Rightarrow> real" where
  "mass_frac m n = mat_comp m n"

definition multi_mass_frac :: "Material \<Rightarrow> Nuc set \<Rightarrow> real" where
  "multi_mass_frac m nucs = sum (mass_frac m) nucs"

text \<open>
  Modelled from the spec: \<^verbatim>\<open>cyclus::toolkit::UraniumAssay\<close> is library code. The spec's
  glossary defines the assay as the mass fraction of U-235 within total uranium.
\<close>

definition UraniumAssay :: "Material \<Rightarrow> real" where
  "UraniumAssay m = mass_frac m U235 / (mass_frac m U235 + mass_frac m U238)"

section \<open>The assay model\<close>

text \<open>
  Modelled from the spec: \<^verbatim>\<open>cyclus::toolkit::Assays\<close>, \<^verbatim>\<open>FeedQty\<close>, \<^verbatim>\<open>TailsQty\<close> and
  \<^verbatim>\<open>SwuRequired\<close> are library code that the header only calls. The constructor takes
  the feed, product and tails assays in this order, as the calls in the header do. The
  value function is \<open>V(x) = (2x - 1) ln (x / (1 - x))\<close>; feed and tails masses solve the
  mass balance \<open>feed = product + tails\<close>,
  \<open>feed * feed_assay = product * product_assay + tails * tails_assay\<close>; the separative work
  is \<open>product * V(product) + tails * V(tails) - feed * V(feed)\<close> and is undefined (the
  call fails) when the feed assay equals the tails or the product assay.
\<close>

datatype Assays = Assays (Feed: real) (Product: real) (Tails: real)

datatype error = DegenerateAssay | ConstraintViolation | InsufficientQuantity

definition ValueFunc :: "real \<Rightarrow> real" where
  "ValueFunc x = (2 * x - 1) * ln (x / (1 - x))"

definition FeedQty :: "real \<Rightarrow> Assays \<Rightarrow> real" where
  "FeedQty product_qty a =
     product_qty * (Product a - Tails a) / (Feed a - Tails a)"

definition TailsQty :: "real \<Rightarrow> Assays \<Rightarrow> real" where
  "TailsQty product_qty a =
     product_qty * (Product a - Feed a) / (Feed a - Tails a)"

definition SwuRequired :: "real \<Rightarrow> Assays \<Rightarrow> error + real" where
  "SwuRequired product_qty a =
     (if Feed a = Tails a \<or> Feed a = Product a then Inl DegenerateAssay
      else Inr (product_qty * ValueFunc (Product a)
                + TailsQty product_qty a * ValueFunc (Tails a)
                - FeedQty product_qty a * ValueFunc (Feed a)))"

section \<open>The converters\<close>

text \<open>
  \<^verbatim>\<open>SWUConverter\<close> and \<^verbatim>\<open>NatUConverter\<close> derive from \<^verbatim>\<open>cyclus::Converter\<close>; each holds
  the two private fields \<^verbatim>\<open>feed_\<close> and \<^verbatim>\<open>tails_\<close> (selectors \<open>conv_feed\<close>, \<open>conv_tails\<close>). \<open>OtherConverter\<close> stands for
  any other class derived from \<^verbatim>\<open>cyclus::Converter\<close> that an \<^verbatim>\<open>operator==\<close> may be
  handed.
\<close>

datatype Converter =
    SWUConverter (conv_feed: real) (conv_tails: real)
  | NatUConverter (conv_feed: real) (conv_tails: real)
  | OtherConverter

text \<open>
  \<^verbatim>\<open>SWUConverter::convert\<close>: the material's own assay is the product assay. An exception
  of \<^verbatim>\<open>SwuRequired\<close> passes through.
\<close>

definition SWUConverter_convert :: "Converter \<Rightarrow> Material \<Rightarrow> error + real" where
  "SWUConverter_convert this m =
     (let assays = Assays (conv_feed this) (UraniumAssay m) (conv_tails this)
      in SwuRequired (quantity m) assays)"

text \<open>\<^verbatim>\<open>NatUConverter::convert\<close>.\<close>

definition NatUConverter_convert :: "Converter \<Rightarrow> Material \<Rightarrow> real" where
  "NatUConverter_convert this m =
     (let assays = Assays (conv_feed this) (UraniumAssay m) (conv_tails this);
          nucs = insert U238 (insert U235 {});
          natu_frac = multi_mass_frac m nucs;
          natu_req = FeedQty (quantity m) assays
      in natu_req / natu_frac)"

text \<open>
  \<^verbatim>\<open>dynamic_cast<SWUConverter*>(&other)\<close> yields a null pointer unless the object is a
  \<^verbatim>\<open>SWUConverter\<close>; likewise for \<^verbatim>\<open>NatUConverter\<close>.
\<close>

definition cast_SWUConverter :: "Converter \<Rightarrow> Converter option" where
  "cast_SWUConverter other =
     (case other of SWUConverter f t \<Rightarrow> Some other | _ \<Rightarrow> None)"

definition cast_NatUConverter :: "Converter \<Rightarrow> Converter option" where
  "cast_NatUConverter other =
     (case other of NatUConverter f t \<Rightarrow> Some other | _ \<Rightarrow> None)"

text \<open>\<^verbatim>\<open>SWUConverter::operator==\<close> and \<^verbatim>\<open>NatUConverter::operator==\<close>.\<close>

definition SWUConverter_eq :: "Converter \<Rightarrow> Converter \<Rightarrow> bool" where
  "SWUConverter_eq this other =
     (case cast_SWUConverter other of
        None \<Rightarrow> False
      | Some cast \<Rightarrow> conv_feed this = conv_feed cast \<and> conv_tails this = conv_tails cast)"

definition NatUConverter_eq :: "Converter \<Rightarrow> Converter \<Rightarrow> bool" where
  "NatUConverter_eq this other =
     (case cast_NatUConverter other of
        None \<Rightarrow> False
      | Some cast \<Rightarrow> conv_feed this = conv_feed cast \<and> conv_tails this = conv_tails cast)"

section \<open>The facility\<close>

text \<open>
  A \<^verbatim>\<open>ResBuf<Material>\<close> is an ordered sequence of material lots, oldest first, with a
  capacity. The state variables of \<^verbatim>\<open>EnrichmentFacility\<close> are the fields the header
  declares.
\<close>

record ResBuf =
  mats :: "Material list"
  capacity :: real

record EnrichmentFacility =
  in_commod :: string
  out_commod :: string
  in_recipe :: string
  tails_commod :: string
  tails_assay :: real
  swu_capacity :: real
  max_inv_size :: real
  max_enrich :: real
  initial_reserves :: real
  current_swu_capacity :: real
  inventory :: ResBuf
  tails :: ResBuf

text \<open>
  The setter \<^verbatim>\<open>SwuCapacity(double)\<close> assigns \<^verbatim>\<open>swu_capacity\<close> and then copies it into
  \<^verbatim>\<open>current_swu_capacity\<close>; the two getters read one field each.
\<close>

definition SwuCapacity_set :: "real \<Rightarrow> EnrichmentFacility \<Rightarrow> EnrichmentFacility" where
  "SwuCapacity_set cap st =
     (let st1 = st\<lparr>swu_capacity := cap\<rparr>
      in st1\<lparr>current_swu_capacity := swu_capacity st1\<rparr>)"

definition SwuCapacity :: "EnrichmentFacility \<Rightarrow> real" where
  "SwuCapacity st = swu_capacity st"

definition CurrentSwuCapacity :: "EnrichmentFacility \<Rightarrow> real" where
  "CurrentSwuCapacity st = current_swu_capacity st"

section \<open>The inventory buffer and trade execution\<close>









section \<open>Auxiliary definitions\<close>

text \<open>The derivative of the value function on the open unit interval.\<close>

definition ValueFunc_deriv :: "real \<Rightarrow> real" where
  "ValueFunc_deriv x = 2 * ln (x / (1 - x)) + 1 / (1 - x) - 1 / x"




section \<open>Properties of the converters and of the capacity setter\<close>

lemma U235_neq_U238: "U235 \<noteq> U238"
  by (simp add: U235_def U238_def)

lemma multi_mass_frac_uranium:
  "multi_mass_frac m (insert U238 (insert U235 {})) = mass_frac m U235 + mass_frac m U238"
  using U235_neq_U238 by (simp add: multi_mass_frac_def)

text \<open>
  C5: \<^verbatim>\<open>NatUConverter::convert\<close> returns the feed quantity for the material's mass, with
  the material's own assay as product assay and the converter's feed and tails assays,
  divided by the combined U-235 and U-238 mass fraction of the material.
\<close>

theorem NatUConverter_convert_feed_over_uranium_fraction:
  "NatUConverter_convert (NatUConverter feed tls) m =
     FeedQty (quantity m) (Assays feed (UraniumAssay m) tls)
       / (mass_frac m U235 + mass_frac m U238)"
  by (simp add: NatUConverter_convert_def Let_def multi_mass_frac_uranium)

text \<open>
  C8: each \<^verbatim>\<open>operator==\<close> answers true exactly for a converter of its own class with
  the same feed and tails parameters; a converter of the other class, or of any further
  class, is never equal, whatever its parameters.
\<close>

theorem Converter_eq_structural:
  "SWUConverter_eq (SWUConverter f t) other = (other = SWUConverter f t)
   \<and> NatUConverter_eq (NatUConverter f t) other = (other = NatUConverter f t)
   \<and> \<not> SWUConverter_eq (SWUConverter f t) (NatUConverter f' t')
   \<and> \<not> NatUConverter_eq (NatUConverter f t) (SWUConverter f' t')
   \<and> \<not> SWUConverter_eq (SWUConverter f t) OtherConverter
   \<and> \<not> NatUConverter_eq (NatUConverter f t) OtherConverter"
  by (cases other)
     (auto simp: SWUConverter_eq_def NatUConverter_eq_def
                 cast_SWUConverter_def cast_NatUConverter_def)

text \<open>
  C10: after the setter \<^verbatim>\<open>SwuCapacity(c)\<close> both getters return \<open>c\<close>, and the state
  reached does not depend on the budget that remained before the call.
\<close>

theorem SwuCapacity_set_resets_current:
  "SwuCapacity (SwuCapacity_set c st) = c
   \<and> CurrentSwuCapacity (SwuCapacity_set c st) = c
   \<and> SwuCapacity_set c (st\<lparr>current_swu_capacity := remaining\<rparr>) = SwuCapacity_set c st"
  by (simp add: SwuCapacity_set_def SwuCapacity_def CurrentSwuCapacity_def Let_def)

section \<open>Convexity of the value function\<close>

text \<open>
  On the open unit interval the derivative of the value function is strictly increasing,
  so by the mean value theorem a chord further to the right is strictly steeper.
\<close>

lemma ValueFunc_has_deriv:
  assumes "0 < x" "x < 1"
  shows "(ValueFunc has_real_derivative ValueFunc_deriv x) (at x)"
proof -
  have nz: "x \<noteq> 0" "1 - x \<noteq> 0" "0 < x / (1 - x)" using assms by auto
  have d0: "((\<lambda>y. 2 * y - 1) has_real_derivative 2) (at x)"
    by (auto intro!: derivative_eq_intros)
  have d1: "((\<lambda>y. y / (1 - y)) has_real_derivative 1 / ((1 - x) * (1 - x))) (at x)"
    using nz by (auto intro!: derivative_eq_intros simp: field_simps)
  have d2: "((\<lambda>y. ln (y / (1 - y))) has_real_derivative
              1 / (x / (1 - x)) * (1 / ((1 - x) * (1 - x)))) (at x)"
    using DERIV_chain2[OF DERIV_ln_divide[OF nz(3)] d1] .
  have d3: "((\<lambda>y. (2 * y - 1) * ln (y / (1 - y))) has_real_derivative
              2 * ln (x / (1 - x))
              + (1 / (x / (1 - x)) * (1 / ((1 - x) * (1 - x)))) * (2 * x - 1)) (at x)"
    using DERIV_mult[OF d0 d2] .
  have e1: "1 / (x / (1 - x)) * (1 / ((1 - x) * (1 - x))) = 1 / (x * (1 - x))"
    using nz by simp
  have e2: "1 / (1 - x) - 1 / x = (2 * x - 1) / (x * (1 - x))"
    using nz by (simp add: diff_frac_eq mult.commute)
  have e: "(1 / (x / (1 - x)) * (1 / ((1 - x) * (1 - x)))) * (2 * x - 1) = 1 / (1 - x) - 1 / x"
    unfolding e1 e2 by simp
  have eq: "2 * ln (x / (1 - x)) + (1 / (1 - x) - 1 / x) = ValueFunc_deriv x"
    by (simp add: ValueFunc_deriv_def)
  have "((\<lambda>y. (2 * y - 1) * ln (y / (1 - y))) has_real_derivative ValueFunc_deriv x) (at x)"
    using d3 unfolding e eq .
  then show ?thesis
    by (simp add: ValueFunc_def[abs_def])
qed

lemma ValueFunc_deriv_strict_mono:
  assumes "0 < x" "x < y" "y < 1"
  shows "ValueFunc_deriv x < ValueFunc_deriv y"
proof -
  have a: "x / (1 - x) < y / (1 - y)"
    using assms by (simp add: field_simps)
  have "0 < x / (1 - x)" "0 < y / (1 - y)" using assms by auto
  then have l: "ln (x / (1 - x)) < ln (y / (1 - y))"
    using a by simp
  have b: "1 / (1 - x) < 1 / (1 - y)"
    using assms by (simp add: field_simps)
  have c: "1 / y < 1 / x"
    using assms by (simp add: field_simps)
  show ?thesis
    unfolding ValueFunc_deriv_def using l b c by linarith
qed

lemma ValueFunc_mvt:
  assumes "0 < a" "a < b" "b < 1"
  shows "\<exists>z. a < z \<and> z < b \<and> ValueFunc b - ValueFunc a = (b - a) * ValueFunc_deriv z"
proof (rule MVT2)
  show "a < b" by fact
  fix x assume "a \<le> x" "x \<le> b"
  then have "0 < x" "x < 1" using assms by auto
  then show "(ValueFunc has_real_derivative ValueFunc_deriv x) (at x)"
    by (rule ValueFunc_has_deriv)
qed

lemma ValueFunc_chords:
  assumes "0 < a" "a < b" "b \<le> c" "c < d" "d < 1"
  shows "(ValueFunc b - ValueFunc a) / (b - a) < (ValueFunc d - ValueFunc c) / (d - c)"
proof -
  obtain z1 where z1: "a < z1" "z1 < b" "ValueFunc b - ValueFunc a = (b - a) * ValueFunc_deriv z1"
    using ValueFunc_mvt[of a b] assms by auto
  obtain z2 where z2: "c < z2" "z2 < d" "ValueFunc d - ValueFunc c = (d - c) * ValueFunc_deriv z2"
    using ValueFunc_mvt[of c d] assms by auto
  have "ValueFunc_deriv z1 < ValueFunc_deriv z2"
    using ValueFunc_deriv_strict_mono[of z1 z2] z1 z2 assms by auto
  moreover have "(ValueFunc b - ValueFunc a) / (b - a) = ValueFunc_deriv z1"
    using z1 assms by simp
  moreover have "(ValueFunc d - ValueFunc c) / (d - c) = ValueFunc_deriv z2"
    using z2 assms by simp
  ultimately show ?thesis by simp
qed

section \<open>Separative work as a difference of chord slopes\<close>

lemma SwuRequired_chords:
  assumes "xt \<noteq> xf" "xf \<noteq> xp"
  shows "SwuRequired q (Assays xf xp xt) =
           Inr (q * ((ValueFunc xp - ValueFunc xf)
                     - (xp - xf) * ((ValueFunc xf - ValueFunc xt) / (xf - xt))))"
proof -
  define r where "r = (xp - xf) / (xf - xt)"
  have nz: "xf - xt \<noteq> 0" using assms by simp
  have t: "q * (xp - xf) / (xf - xt) = q * r"
    by (simp add: r_def)
  have "(xp - xt) / (xf - xt) = r + 1"
    using nz by (simp add: r_def field_simps)
  then have "q * ((xp - xt) / (xf - xt)) = q * (r + 1)"
    by (rule arg_cong)
  then have f: "q * (xp - xt) / (xf - xt) = q * (r + 1)"
    by (simp only: times_divide_eq_right)
  have c: "(xp - xf) * ((ValueFunc xf - ValueFunc xt) / (xf - xt))
           = r * (ValueFunc xf - ValueFunc xt)"
    by (simp add: r_def)
  have "q * ValueFunc xp + q * (xp - xf) / (xf - xt) * ValueFunc xt
          - q * (xp - xt) / (xf - xt) * ValueFunc xf
        = q * ((ValueFunc xp - ValueFunc xf)
               - (xp - xf) * ((ValueFunc xf - ValueFunc xt) / (xf - xt)))"
    unfolding t f c by (simp add: algebra_simps)
  then show ?thesis
    using assms by (simp add: SwuRequired_def FeedQty_def TailsQty_def)
qed

lemma swu_positive:
  assumes "0 < q" "0 < xt" "xt < xf" "xf < xp" "xp < 1"
  shows "0 < q * ((ValueFunc xp - ValueFunc xf)
                  - (xp - xf) * ((ValueFunc xf - ValueFunc xt) / (xf - xt)))"
proof -
  have "(ValueFunc xf - ValueFunc xt) / (xf - xt) < (ValueFunc xp - ValueFunc xf) / (xp - xf)"
    using ValueFunc_chords[of xt xf xf xp] assms by simp
  then have "(xp - xf) * ((ValueFunc xf - ValueFunc xt) / (xf - xt)) < ValueFunc xp - ValueFunc xf"
    using assms by (simp add: pos_less_divide_eq mult.commute)
  then show ?thesis using assms by simp
qed

lemma swu_increasing:
  assumes "0 < q" "0 < xt" "xt < xf" "xf \<le> xp" "xp < xp'" "xp' < 1"
  shows "q * ((ValueFunc xp - ValueFunc xf)
              - (xp - xf) * ((ValueFunc xf - ValueFunc xt) / (xf - xt)))
         < q * ((ValueFunc xp' - ValueFunc xf)
                - (xp' - xf) * ((ValueFunc xf - ValueFunc xt) / (xf - xt)))"
proof -
  define s where "s = (ValueFunc xf - ValueFunc xt) / (xf - xt)"
  have "s < (ValueFunc xp' - ValueFunc xp) / (xp' - xp)"
    unfolding s_def using ValueFunc_chords[of xt xf xp xp'] assms by simp
  then have "(xp' - xp) * s < ValueFunc xp' - ValueFunc xp"
    using assms by (simp add: pos_less_divide_eq mult.commute)
  then have "(ValueFunc xp - ValueFunc xf) - (xp - xf) * s
             < (ValueFunc xp' - ValueFunc xf) - (xp' - xf) * s"
    by (simp add: algebra_simps)
  then show ?thesis using assms unfolding s_def by simp
qed

text \<open>
  C9 (as amended): for a positive product quantity and assays with
  \<open>0 < tails < feed < product < 1\<close>, the separative work is defined, strictly
  positive, and strictly increasing in the product assay.
\<close>

theorem SwuRequired_increasing_positive:
  assumes "0 < q" "0 < xt" "xt < xf" "xf < xp" "xp < xp'" "xp' < 1"
  shows "\<exists>s s'. SwuRequired q (Assays xf xp xt) = Inr s
                \<and> SwuRequired q (Assays xf xp' xt) = Inr s'
                \<and> 0 < s \<and> s < s'"
proof -
  have ne: "xt \<noteq> xf" "xf \<noteq> xp" "xf \<noteq> xp'" using assms by auto
  show ?thesis
    unfolding SwuRequired_chords[OF ne(1) ne(2)] SwuRequired_chords[OF ne(1) ne(3)]
    using swu_positive[of q xt xf xp] swu_increasing[of q xt xf xp xp'] assms
    by simp
qed

text \<open>The amended statement at the spec's example assays.\<close>

theorem SwuRequired_increasing_positive_witness:
  "\<exists>s s'. SwuRequired 1 (Assays (72 / 10000) (5 / 100) (3 / 1000)) = Inr s
          \<and> SwuRequired 1 (Assays (72 / 10000) (6 / 100) (3 / 1000)) = Inr s'
          \<and> 0 < s \<and> s < s'"
  using SwuRequired_increasing_positive[of 1 "3 / 1000" "72 / 10000" "5 / 100" "6 / 100"]
  by simp

text \<open>
  C9 as stated fails for a zero quantity: with the feed assay strictly between the tails
  and the product assay the separative work is zero, for either product assay.
\<close>

theorem SwuRequired_zero_quantity:
  "SwuRequired 0 (Assays (1 / 2) (3 / 4) (1 / 4)) = Inr 0
   \<and> SwuRequired 0 (Assays (1 / 2) (7 / 8) (1 / 4)) = Inr 0"
  by (simp add: SwuRequired_def FeedQty_def TailsQty_def)

section \<open>Mass conservation of trade execution\<close>

















end
